theory Spec2Isabelle
  imports Complex_Main
begin

section \<open>Python arithmetic used by the scripts\<close>

text \<open>
  Every script computes with Python's unbounded integers and with one floating-point
  value, the aspect ratio \<^verbatim>\<open>self.aspect = width / height\<close> of a monitor. The integers
  are \<^typ>\<open>int\<close>. The aspect ratio is modelled as an exact rational: it is a quotient of two
  positive monitor dimensions, and the model does not follow the rounding of IEEE doubles.
  Every concrete evaluation below uses inputs on which the double computation gives the
  same integers: the aspect \<open>16/9\<close> of a \<open>1920x1080\<close> source, the aspect \<open>64/27\<close> of a
  \<open>2560x1080\<close> source, and the aspect 1. Where a division by the aspect ratio is reached,
  the statements are about a positive ratio; Python would raise on a zero one.

  \<^verbatim>\<open>int(x)\<close> truncates towards zero, and Python 3's \<^verbatim>\<open>round(x)\<close> rounds to the
  nearest integer with ties going to the even neighbour.
\<close>

definition py_int :: "rat \<Rightarrow> int" where
  "py_int q = (if 0 \<le> q then floor q else ceiling q)"

definition py_round :: "rat \<Rightarrow> int" where
  "py_round q =
     (let f = floor q; d = q - of_int f
      in if d < 1 / 2 then f else if 1 / 2 < d then f + 1 else if even f then f else f + 1)"


section \<open>projector\_mirror\_tk.py: the region editor\<close>

text \<open>
  \<^verbatim>\<open>HANDLE = 10\<close> and \<^verbatim>\<open>MIN_W, MIN_H = 80, 45\<close> (lines 29-30; the same constants
  in projector\_mirror\_tk\_v2.py and projector\_mirror\_tk\_fast.py).
\<close>

definition HANDLE :: int where
  "HANDLE = 10"

definition MIN_W :: int where
  "MIN_W = 80"

definition MIN_H :: int where
  "MIN_H = 45"

text \<open>
  \<^verbatim>\<open>self.rect = [x1, y1, x2, y2]\<close> is a list of four integers; \<^verbatim>\<open>self.dragging_mode\<close>
  is \<^verbatim>\<open>None\<close>, \<^verbatim>\<open>'move'\<close> or one of the corner names.
\<close>

type_synonym box = "int \<times> int \<times> int \<times> int"

datatype drag = Move | TL | TR | BL | BR

text \<open>
  The fields of \<^verbatim>\<open>ProjectorMirrorApp\<close> that the handlers read and write. \<open>proj_w\<close> and
  \<open>proj_h\<close> are \<^verbatim>\<open>self.proj_m['width']\<close> and \<^verbatim>\<open>self.proj_m['height']\<close>. \<open>frame_img_id\<close>
  says whether \<^verbatim>\<open>self.frame_img_id\<close> is set; \<open>destroyed\<close> records \<^verbatim>\<open>self.root.destroy()\<close>;
  \<open>canvas_image\<close> lists, oldest first, every call of
  \<^verbatim>\<open>canvas.coords(id, x1, y1); canvas.itemconfig(id, image=frame)\<close> as \<open>(frame, x1, y1)\<close>.
\<close>

record 'f tk_app =
  aspect :: rat
  proj_w :: int
  proj_h :: int
  rect :: box
  mirroring :: bool
  stop_flag :: bool
  destroyed :: bool
  fullscreen :: bool
  dragging_mode :: "drag option"
  prev_mouse :: "int \<times> int"
  tk_frame :: "'f option"
  frame_img_id :: bool
  canvas_image :: "('f \<times> int \<times> int) list"

text \<open>The initial rectangle (\<^verbatim>\<open>__init__\<close>, lines 73-81) and the same code under key \<^verbatim>\<open>'r'\<close>
  (lines 268-276).\<close>

definition centered_rect :: "rat \<Rightarrow> int \<Rightarrow> int \<Rightarrow> box" where
  "centered_rect a W H =
     (let rh = max 200 (H div 3);
          rw = py_int (of_int rh * a);
          (rw, rh) = (if rw > W then (W div 2, py_int (of_int (W div 2) / a)) else (rw, rh));
          rx = (W - rw) div 2;
          ry = (H - rh) div 2
      in (rx, ry, rx + rw, ry + rh))"

text \<open>\<^verbatim>\<open>hit_test\<close> (lines 154-167): the corners are tried in the dictionary's insertion
  order, then the interior.\<close>

definition corners :: "box \<Rightarrow> (drag \<times> int \<times> int) list" where
  "corners r = (case r of (x1, y1, x2, y2) \<Rightarrow>
     [(TL, x1, y1), (TR, x2, y1), (BL, x1, y2), (BR, x2, y2)])"

definition in_handle :: "int \<Rightarrow> int \<Rightarrow> drag \<times> int \<times> int \<Rightarrow> bool" where
  "in_handle x y c = (case c of (name, cx, cy) \<Rightarrow> \<bar>x - cx\<bar> \<le> HANDLE \<and> \<bar>y - cy\<bar> \<le> HANDLE)"

definition hit_test :: "box \<Rightarrow> int \<Rightarrow> int \<Rightarrow> drag option" where
  "hit_test r x y =
     (case find (in_handle x y) (corners r) of
        Some (name, cx, cy) \<Rightarrow> Some name
      | None \<Rightarrow> (case r of (x1, y1, x2, y2) \<Rightarrow>
          if x1 < x \<and> x < x2 \<and> y1 < y \<and> y < y2 then Some Move else None))"

text \<open>\<^verbatim>\<open>on_mouse_down\<close> (lines 169-174).\<close>

definition on_mouse_down :: "'f tk_app \<Rightarrow> int \<times> int \<Rightarrow> 'f tk_app" where
  "on_mouse_down s e =
     (if mirroring s then s
      else s\<lparr>prev_mouse := e, dragging_mode := hit_test (rect s) (fst e) (snd e)\<rparr>)"

text \<open>The size computation of a corner drag (lines 217-223), from the distances \<open>dx\<close>, \<open>dy\<close>
  between the cursor and the fixed corner.\<close>

definition drag_size :: "rat \<Rightarrow> int \<Rightarrow> int \<Rightarrow> int \<times> int" where
  "drag_size a dx dy =
     (let new_w = max MIN_W dx;
          new_h = py_round (of_int new_w / a)
      in if new_h > dy
         then (let new_h = max MIN_H dy in (py_round (of_int new_h * a), new_h))
         else (new_w, new_h))"

text \<open>The move branch (lines 186-193) and the resize branch (lines 195-243) of
  \<^verbatim>\<open>on_mouse_drag\<close>; \<open>x\<close>, \<open>y\<close> is the cursor already clamped to the window.\<close>

definition move_box :: "int \<Rightarrow> int \<Rightarrow> box \<Rightarrow> int \<times> int \<Rightarrow> int \<Rightarrow> int \<Rightarrow> box" where
  "move_box W H r prev x y = (case r of (x1, y1, x2, y2) \<Rightarrow>
     (let dx = x - fst prev;
          dy = y - snd prev;
          nx1 = max 0 (min (x1 + dx) (W - (x2 - x1)));
          ny1 = max 0 (min (y1 + dy) (H - (y2 - y1)));
          nx2 = nx1 + (x2 - x1);
          ny2 = ny1 + (y2 - y1)
      in (nx1, ny1, nx2, ny2)))"

definition resize_box :: "rat \<Rightarrow> int \<Rightarrow> int \<Rightarrow> drag \<Rightarrow> box \<Rightarrow> int \<Rightarrow> int \<Rightarrow> box" where
  "resize_box a W H m r x y = (case r of (x1, y1, x2, y2) \<Rightarrow>
     (let (fx, fy) = (case m of TL \<Rightarrow> (x2, y2) | TR \<Rightarrow> (x1, y2) | BL \<Rightarrow> (x2, y1) | _ \<Rightarrow> (x1, y1));
          dx = \<bar>x - fx\<bar>;
          dy = \<bar>y - fy\<bar>;
          (new_w, new_h) = drag_size a dx dy
      in case m of
           TL \<Rightarrow> (max 0 (min (fx - new_w) fx), max 0 (min (fy - new_h) fy), fx, fy)
         | TR \<Rightarrow> (fx, max 0 (min (fy - new_h) fy), min W (max (fx + new_w) fx), fy)
         | BL \<Rightarrow> (max 0 (min (fx - new_w) fx), fy, fx, min H (max (fy + new_h) fy))
         | _ \<Rightarrow> (fx, fy, min W (max (fx + new_w) fx), min H (max (fy + new_h) fy))))"

text \<open>\<^verbatim>\<open>on_mouse_drag\<close> (lines 176-246) and \<^verbatim>\<open>on_mouse_up\<close> (lines 248-249).\<close>

definition on_mouse_drag :: "'f tk_app \<Rightarrow> int \<times> int \<Rightarrow> 'f tk_app" where
  "on_mouse_drag s e =
     (if mirroring s then s
      else case dragging_mode s of
        None \<Rightarrow> s
      | Some m \<Rightarrow>
          (let W = proj_w s;
               H = proj_h s;
               x = max 0 (min (fst e) W);
               y = max 0 (min (snd e) H);
               r = (if m = Move then move_box W H (rect s) (prev_mouse s) x y
                    else resize_box (aspect s) W H m (rect s) x y)
           in s\<lparr>rect := r, prev_mouse := e\<rparr>))"

definition on_mouse_up :: "'f tk_app \<Rightarrow> int \<times> int \<Rightarrow> 'f tk_app" where
  "on_mouse_up s e = s\<lparr>dragging_mode := None\<rparr>"

text \<open>The capture thread (\<^verbatim>\<open>capture_loop\<close>, lines 296-313): one iteration that grabbed and
  resized the image \<open>f\<close> stores it in \<^verbatim>\<open>self.tk_frame\<close>; the loop runs while the stop flag is
  clear. The timer callback \<^verbatim>\<open>schedule_frame_draw\<close> (lines 315-323) shows the stored image at
  the rectangle's current corner and leaves \<^verbatim>\<open>self.tk_frame\<close> as it is.\<close>

definition capture_iteration :: "'f \<Rightarrow> 'f tk_app \<Rightarrow> 'f tk_app" where
  "capture_iteration f s = (if stop_flag s then s else s\<lparr>tk_frame := Some f\<rparr>)"

definition schedule_frame_draw :: "'f tk_app \<Rightarrow> 'f tk_app" where
  "schedule_frame_draw s =
     (if stop_flag s then s
      else case tk_frame s of
        None \<Rightarrow> s
      | Some f \<Rightarrow>
          if mirroring s \<and> frame_img_id s
          then (case rect s of (x1, y1, x2, y2) \<Rightarrow>
                  s\<lparr>canvas_image := canvas_image s @ [(f, x1, y1)]\<rparr>)
          else s)"

text \<open>\<^verbatim>\<open>start_mirroring\<close> (lines 284-294) sets the flag, creates the canvas image, starts the
  capture thread and runs the first draw tick.\<close>

definition start_mirroring :: "'f tk_app \<Rightarrow> 'f tk_app" where
  "start_mirroring s = schedule_frame_draw (s\<lparr>mirroring := True, frame_img_id := True\<rparr>)"

text \<open>\<^verbatim>\<open>on_key\<close> (lines 252-281). \<^verbatim>\<open>e.keysym.lower()\<close> is modelled on ASCII letters, which is
  what Tk's key names are made of.\<close>

definition lower :: "string \<Rightarrow> string" where
  "lower = map (\<lambda>c. let n = (of_char c :: nat) in if 65 \<le> n \<and> n \<le> 90 then char_of (n + 32) else c)"

definition on_key :: "'f tk_app \<Rightarrow> string \<Rightarrow> 'f tk_app" where
  "on_key s keysym =
     (let k = lower keysym
      in if k = ''escape'' \<or> k = ''q'' then s\<lparr>stop_flag := True, destroyed := True\<rparr>
         else if k = ''f'' then s\<lparr>fullscreen := \<not> fullscreen s\<rparr>
         else if k = ''r'' \<and> \<not> mirroring s
           then s\<lparr>rect := centered_rect (aspect s) (proj_w s) (proj_h s)\<rparr>
         else if k = ''s'' \<and> \<not> mirroring s then start_mirroring s
         else s)"

text \<open>The Tk main loop delivers one event at a time to the handlers bound in \<^verbatim>\<open>__init__\<close>
  (lines 98-101); \<open>Tick\<close> is the timer firing \<^verbatim>\<open>schedule_frame_draw\<close> and \<open>Captured f\<close> an
  iteration of the capture thread, which exists once \<^verbatim>\<open>start_mirroring\<close> has run. After
  \<^verbatim>\<open>root.destroy()\<close> no handler runs.\<close>

datatype 'f event =
    MouseDown "int \<times> int"
  | MouseDrag "int \<times> int"
  | MouseUp "int \<times> int"
  | Key string
  | Tick
  | Captured 'f

fun step :: "'f tk_app \<Rightarrow> 'f event \<Rightarrow> 'f tk_app" where
  "step s (MouseDown e) = (if destroyed s then s else on_mouse_down s e)"
| "step s (MouseDrag e) = (if destroyed s then s else on_mouse_drag s e)"
| "step s (MouseUp e) = (if destroyed s then s else on_mouse_up s e)"
| "step s (Key k) = (if destroyed s then s else on_key s k)"
| "step s Tick = (if destroyed s then s else schedule_frame_draw s)"
| "step s (Captured f) = (if mirroring s then capture_iteration f s else s)"

definition run :: "'f tk_app \<Rightarrow> 'f event list \<Rightarrow> 'f tk_app" where
  "run = foldl step"

text \<open>The state \<^verbatim>\<open>__init__\<close> builds for a source aspect ratio \<open>a\<close> and a projector monitor of
  \<open>W\<close> by \<open>H\<close> pixels (lines 63-95).\<close>

definition init_app :: "rat \<Rightarrow> int \<Rightarrow> int \<Rightarrow> 'f tk_app" where
  "init_app a W H =
     \<lparr>aspect = a, proj_w = W, proj_h = H, rect = centered_rect a W H, mirroring = False,
      stop_flag = False, destroyed = False, fullscreen = True, dragging_mode = None,
      prev_mouse = (0, 0), tk_frame = None, frame_img_id = False, canvas_image = []\<rparr>"


section \<open>projector\_mirror\_tk\_v2.py: the frame hand-over\<close>

text \<open>
  Version 2 keeps the editor of projector\_mirror\_tk.py (the same \<^verbatim>\<open>hit_test\<close>, lines 167-175,
  and the same size computation, lines 209-215) and adds \<^verbatim>\<open>self._latest_img\<close>, written by
  the capture thread and taken by the Tk thread, both under \<^verbatim>\<open>self._frame_lock\<close>: each of the
  two accesses is one atomic step.
\<close>

record 'f tk_v2_app =
  v2_rect :: box
  v2_mirroring :: bool
  v2_stop_flag :: bool
  v2_image_id :: bool
  latest_img :: "'f option"
  v2_tk_frame :: "'f option"
  v2_canvas_image :: "('f \<times> int \<times> int) list"

text \<open>One iteration of \<^verbatim>\<open>capture_loop\<close> (lines 279-304) that grabbed and resized \<open>f\<close>.\<close>

definition v2_capture_iteration :: "'f \<Rightarrow> 'f tk_v2_app \<Rightarrow> 'f tk_v2_app" where
  "v2_capture_iteration f s = (if v2_stop_flag s then s else s\<lparr>latest_img := Some f\<rparr>)"

text \<open>\<^verbatim>\<open>ui_update_loop\<close> (lines 306-320).\<close>

definition ui_update_loop :: "'f tk_v2_app \<Rightarrow> 'f tk_v2_app" where
  "ui_update_loop s =
     (if v2_stop_flag s then s
      else if v2_mirroring s \<and> v2_image_id s
      then (let img = latest_img s;
                s = s\<lparr>latest_img := None\<rparr>
            in case img of
                 None \<Rightarrow> s
               | Some f \<Rightarrow> (case v2_rect s of (x1, y1, x2, y2) \<Rightarrow>
                   s\<lparr>v2_tk_frame := Some f,
                     v2_canvas_image := v2_canvas_image s @ [(f, x1, y1)]\<rparr>))
      else s)"


section \<open>The capture primitive\<close>

text \<open>
  \<^verbatim>\<open>grab\<close> is outside the repository (\<^verbatim>\<open>mss\<close>, \<^verbatim>\<open>dxcam\<close>). A call returns an image,
  returns no image (\<^verbatim>\<open>None\<close>), or raises.
\<close>

datatype 'f grab = Grabbed 'f | NoFrame | Raises


section \<open>projector\_mirror\_tk\_fast.py\<close>

record 'f fast_app =
  fast_aspect :: rat
  fast_w :: int
  fast_h :: int
  fast_rect :: box
  fast_mirroring :: bool
  fast_stop_flag :: bool
  fast_destroyed :: bool
  fast_fullscreen :: bool
  fast_image_id :: bool
  target_fps :: int
  latest_bgr :: "'f option"
  capture_alive :: bool
  slept :: "rat list"

text \<open>The rectangle of \<^verbatim>\<open>__init__\<close> (lines 113-121) and of key \<^verbatim>\<open>'r'\<close> (lines 254-262): as in
  projector\_mirror\_tk.py, with 240 in place of 200.\<close>

definition fast_centered_rect :: "rat \<Rightarrow> int \<Rightarrow> int \<Rightarrow> box" where
  "fast_centered_rect a W H =
     (let rh = max 240 (H div 3);
          rw = py_int (of_int rh * a);
          (rw, rh) = (if rw > W then (W div 2, py_int (of_int (W div 2) / a)) else (rw, rh));
          rx = (W - rw) div 2;
          ry = (H - rh) div 2
      in (rx, ry, rx + rw, ry + rh))"

text \<open>\<^verbatim>\<open>start_mirroring\<close> (lines 278-284) and \<^verbatim>\<open>on_key\<close> (lines 243-275).\<close>

definition fast_start_mirroring :: "'f fast_app \<Rightarrow> 'f fast_app" where
  "fast_start_mirroring s = s\<lparr>fast_mirroring := True, fast_image_id := True, capture_alive := True\<rparr>"

definition fast_on_key :: "'f fast_app \<Rightarrow> string \<Rightarrow> 'f fast_app" where
  "fast_on_key s keysym =
     (let k = lower keysym
      in if k = ''escape'' \<or> k = ''q'' then s\<lparr>fast_stop_flag := True, fast_destroyed := True\<rparr>
         else if k = ''f'' then s\<lparr>fast_fullscreen := \<not> fast_fullscreen s\<rparr>
         else if k = ''r'' \<and> \<not> fast_mirroring s
           then s\<lparr>fast_rect := fast_centered_rect (fast_aspect s) (fast_w s) (fast_h s)\<rparr>
         else if k = ''s'' \<and> \<not> fast_mirroring s then fast_start_mirroring s
         else if k = ''plus'' \<or> k = ''equal'' then s\<lparr>target_fps := min 120 (target_fps s + 10)\<rparr>
         else if k = ''minus'' \<or> k = ''underscore''
           then s\<lparr>target_fps := max 30 (target_fps s - 10)\<rparr>
         else s)"

text \<open>
  \<^verbatim>\<open>capture_loop_dx\<close> (lines 286-326). \<^verbatim>\<open>interval\<close> is computed once, before the loop. One
  cycle takes the outcome of \<^verbatim>\<open>cam.grab\<close> and the time \<open>spent\<close> that \<^verbatim>\<open>perf_counter\<close>
  measures at its end. An exception leaves the \<^verbatim>\<open>while\<close> loop and ends the thread: nothing in
  the function catches it. \<open>slept\<close> lists the arguments of \<^verbatim>\<open>time.sleep\<close> in seconds.
\<close>

definition capture_cycle_dx :: "rat \<Rightarrow> 'f fast_app \<Rightarrow> 'f grab \<times> rat \<Rightarrow> 'f fast_app" where
  "capture_cycle_dx interval s c = (case c of (g, spent) \<Rightarrow>
     (if \<not> capture_alive s then s
      else if fast_stop_flag s then s\<lparr>capture_alive := False\<rparr>
      else (case g of
        Raises \<Rightarrow> s\<lparr>capture_alive := False\<rparr>
      | NoFrame \<Rightarrow> s\<lparr>slept := slept s @ [5 / 1000]\<rparr>
      | Grabbed f \<Rightarrow>
          (let s = s\<lparr>latest_bgr := Some f\<rparr>
           in if spent < interval then s\<lparr>slept := slept s @ [max 0 (interval - spent)]\<rparr>
              else s))))"

definition capture_loop_dx :: "'f fast_app \<Rightarrow> ('f grab \<times> rat) list \<Rightarrow> 'f fast_app" where
  "capture_loop_dx s cs = foldl (capture_cycle_dx (1 / of_int (target_fps s))) s cs"

text \<open>The state \<^verbatim>\<open>__init__\<close> builds (lines 99-139).\<close>

definition fast_init :: "rat \<Rightarrow> int \<Rightarrow> int \<Rightarrow> 'f fast_app" where
  "fast_init a W H =
     \<lparr>fast_aspect = a, fast_w = W, fast_h = H, fast_rect = fast_centered_rect a W H,
      fast_mirroring = False, fast_stop_flag = False, fast_destroyed = False,
      fast_fullscreen = True, fast_image_id = False, target_fps = 90, latest_bgr = None,
      capture_alive = False, slept = []\<rparr>"


section \<open>projector\_mirror.py\<close>

text \<open>
  The fields of \<^verbatim>\<open>ProjectorMirror\<close> that the key handler and the timer slot touch;
  \<open>viewer_frame\<close> is \<^verbatim>\<open>self.viewer._frame\<close>, \<open>timer_interval\<close> the interval of
  \<^verbatim>\<open>self.timer\<close> in milliseconds, \<open>pm_slept\<close> the arguments of \<^verbatim>\<open>time.sleep\<close>. Moving the
  window to another monitor (keys N, 1, 2) changes none of them.
\<close>

datatype qt_key =
    Key_Q | Key_Escape | Key_F11 | Key_Space | Key_P | Key_Plus | Key_Equal | Key_Minus
  | Key_N | Key_1 | Key_2 | Key_R | Key_S | Key_Other

record 'f mirror_win =
  fps :: int
  paused :: bool
  closed :: bool
  full_screen :: bool
  always_on_top :: bool
  timer_interval :: int
  viewer_frame :: "'f option"
  pm_slept :: "rat list"

text \<open>\<^verbatim>\<open>__init__\<close> (lines 111-145), as \<^verbatim>\<open>main\<close> calls it with \<^verbatim>\<open>fps=30\<close>.\<close>

definition init_mirror :: "int \<Rightarrow> 'f mirror_win" where
  "init_mirror f =
     (let r = max 10 (min 120 f)
      in \<lparr>fps = r, paused = False, closed = False, full_screen = False, always_on_top = False,
          timer_interval = 1000 div r, viewer_frame = None, pm_slept = []\<rparr>)"

text \<open>\<^verbatim>\<open>keyPressEvent\<close> (lines 257-291).\<close>

definition keyPressEvent :: "'f mirror_win \<Rightarrow> qt_key \<Rightarrow> 'f mirror_win" where
  "keyPressEvent s key =
     (if key = Key_Q \<or> key = Key_Escape then s\<lparr>closed := True\<rparr>
      else if key = Key_F11 then s\<lparr>full_screen := \<not> full_screen s\<rparr>
      else if key = Key_Space then s\<lparr>paused := \<not> paused s\<rparr>
      else if key = Key_P then s\<lparr>always_on_top := \<not> always_on_top s\<rparr>
      else if key = Key_Plus \<or> key = Key_Equal
        then (let f = min 120 (fps s + 5) in s\<lparr>fps := f, timer_interval := 1000 div f\<rparr>)
      else if key = Key_Minus
        then (let f = max 10 (fps s - 5) in s\<lparr>fps := f, timer_interval := 1000 div f\<rparr>)
      else s)"

text \<open>\<^verbatim>\<open>grab_and_update\<close> (lines 219-236), the timer's slot. Everything from the grab to
  \<^verbatim>\<open>set_frame\<close> stands in one \<^verbatim>\<open>try\<close>; a grab that raises, or that returns something the
  conversion cannot unpack, ends in the \<^verbatim>\<open>except Exception\<close> branch.\<close>

definition grab_and_update :: "'f mirror_win \<Rightarrow> 'f grab \<Rightarrow> 'f mirror_win" where
  "grab_and_update s g =
     (if paused s then s
      else case g of
        Grabbed f \<Rightarrow> s\<lparr>viewer_frame := Some f\<rparr>
      | _ \<Rightarrow> s\<lparr>pm_slept := pm_slept s @ [5 / 100]\<rparr>)"


section \<open>projector\_mirror\_simple.py and projector\_mirror\_simple\_v3.py\<close>

text \<open>
  The Qt scripts keep the rectangle in a \<^verbatim>\<open>QRect(x, y, w, h)\<close>. Qt's \<^verbatim>\<open>right()\<close> and
  \<^verbatim>\<open>bottom()\<close> are \<open>x + w - 1\<close> and \<open>y + h - 1\<close>, and the corner accessors are built from
  them; \<^verbatim>\<open>contains\<close> includes the edges; \<^verbatim>\<open>moveTo\<close> keeps the size. PySide raises
  \<^verbatim>\<open>OverflowError\<close> when a coordinate does not fit a C \<^verbatim>\<open>int\<close>.
\<close>

record qrect =
  qr_x :: int
  qr_y :: int
  qr_w :: int
  qr_h :: int

definition QRect :: "int \<Rightarrow> int \<Rightarrow> int \<Rightarrow> int \<Rightarrow> qrect" where
  "QRect x y w h = \<lparr>qr_x = x, qr_y = y, qr_w = w, qr_h = h\<rparr>"

definition right :: "qrect \<Rightarrow> int" where
  "right r = qr_x r + qr_w r - 1"

definition bottom :: "qrect \<Rightarrow> int" where
  "bottom r = qr_y r + qr_h r - 1"

definition topLeft :: "qrect \<Rightarrow> int \<times> int" where
  "topLeft r = (qr_x r, qr_y r)"

definition topRight :: "qrect \<Rightarrow> int \<times> int" where
  "topRight r = (right r, qr_y r)"

definition bottomLeft :: "qrect \<Rightarrow> int \<times> int" where
  "bottomLeft r = (qr_x r, bottom r)"

definition bottomRight :: "qrect \<Rightarrow> int \<times> int" where
  "bottomRight r = (right r, bottom r)"

definition moveTo :: "qrect \<Rightarrow> int \<times> int \<Rightarrow> qrect" where
  "moveTo r p = r\<lparr>qr_x := fst p, qr_y := snd p\<rparr>"

definition contains :: "qrect \<Rightarrow> int \<times> int \<Rightarrow> bool" where
  "contains r p =
     (let (l, rr) = (if right r < qr_x r - 1 then (right r, qr_x r) else (qr_x r, right r));
          (t, b) = (if bottom r < qr_y r - 1 then (bottom r, qr_y r) else (qr_y r, bottom r))
      in l \<le> fst p \<and> fst p \<le> rr \<and> t \<le> snd p \<and> snd p \<le> b)"

definition c_int :: "int \<Rightarrow> bool" where
  "c_int v = (- (2 ^ 31) \<le> v \<and> v < 2 ^ 31)"

definition HANDLE_SIZE :: int where
  "HANDLE_SIZE = 14"

datatype anchor = Anchor_tl | Anchor_tr | Anchor_bl | Anchor_br

datatype qt_hit = Hit_anchor anchor | Hit_move

text \<open>\<^verbatim>\<open>_handle_rects\<close> and \<^verbatim>\<open>_hit_test\<close> (simple.py lines 95-111, the same text in v3
  lines 80-96).\<close>

definition handle_rects :: "qrect \<Rightarrow> (anchor \<times> qrect) list" where
  "handle_rects r =
     (let s = HANDLE_SIZE
      in [(Anchor_tl, QRect (qr_x r - s div 2) (qr_y r - s div 2) s s),
          (Anchor_tr, QRect (right r - s div 2) (qr_y r - s div 2) s s),
          (Anchor_bl, QRect (qr_x r - s div 2) (bottom r - s div 2) s s),
          (Anchor_br, QRect (right r - s div 2) (bottom r - s div 2) s s)])"

definition qt_hit_test :: "qrect \<Rightarrow> int \<times> int \<Rightarrow> qt_hit option" where
  "qt_hit_test r pos =
     (case find (\<lambda>(name, hr). contains hr pos) (handle_rects r) of
        Some (name, hr) \<Rightarrow> Some (Hit_anchor name)
      | None \<Rightarrow> if contains r pos then Some Hit_move else None)"


subsection \<open>projector\_mirror\_simple.py\<close>








subsection \<open>projector\_mirror\_simple\_v3.py\<close>

text \<open>\<open>v3_width\<close> and \<open>v3_height\<close> are the widget's \<^verbatim>\<open>self.width()\<close> and
  \<^verbatim>\<open>self.height()\<close>.\<close>

record v3_overlay =
  v3_aspect :: rat
  v3_width :: int
  v3_height :: int
  v3_rect :: qrect
  v3_dragging :: bool
  v3_resizing :: bool
  v3_drag_offset :: "int \<times> int"
  v3_resize_anchor :: "anchor option"
  v3_mirror_mode :: bool

text \<open>\<^verbatim>\<open>_reset_rect_centered\<close> (lines 67-77): the rectangle it computes from the aspect ratio
  and the widget's size, and the method, which stores it in \<^verbatim>\<open>self.rect\<close>.\<close>

definition v3_centered_rect :: "rat \<Rightarrow> int \<Rightarrow> int \<Rightarrow> qrect" where
  "v3_centered_rect a width height =
     (let w = max 1 width;
          h = max 1 height;
          target_h = max 200 (h div 3);
          target_w = py_int (of_int target_h * a);
          (target_w, target_h) =
            (if target_w > w
             then (let target_w = max 50 (w div 2)
                   in (target_w, py_int (of_int target_w / a)))
             else (target_w, target_h));
          x = max 0 ((w - target_w) div 2);
          y = max 0 ((h - target_h) div 2)
      in QRect x y target_w target_h)"

definition reset_rect_centered :: "v3_overlay \<Rightarrow> v3_overlay" where
  "reset_rect_centered s =
     s\<lparr>v3_rect := v3_centered_rect (v3_aspect s) (v3_width s) (v3_height s)\<rparr>"

text \<open>\<^verbatim>\<open>__init__\<close> (lines 29-65) on a widget of \<open>W\<close> by \<open>H\<close> pixels.\<close>

definition v3_init :: "rat \<Rightarrow> int \<Rightarrow> int \<Rightarrow> v3_overlay" where
  "v3_init a W H =
     reset_rect_centered
       \<lparr>v3_aspect = max (1 / 10) a, v3_width = W, v3_height = H, v3_rect = QRect 0 0 0 0,
        v3_dragging = False, v3_resizing = False, v3_drag_offset = (0, 0),
        v3_resize_anchor = None, v3_mirror_mode = False\<rparr>"

text \<open>\<^verbatim>\<open>_move_rect_clamped\<close> (lines 164-169).\<close>

definition move_rect_clamped :: "v3_overlay \<Rightarrow> int \<times> int \<Rightarrow> v3_overlay" where
  "move_rect_clamped s new_top_left =
     (let x = fst new_top_left;
          y = snd new_top_left;
          x = max 0 (min x (v3_width s - qr_w (v3_rect s)));
          y = max 0 (min y (v3_height s - qr_h (v3_rect s)))
      in s\<lparr>v3_rect := moveTo (v3_rect s) (x, y)\<rparr>)"

text \<open>\<^verbatim>\<open>_resize_with_aspect_clamped\<close> (lines 171-224). The first assignment of line 206 is
  overwritten by line 207. An \<^verbatim>\<open>OverflowError\<close> of the constructor is caught and the
  rectangle stays.\<close>

definition resize_with_aspect_clamped :: "v3_overlay \<Rightarrow> int \<times> int \<Rightarrow> v3_overlay" where
  "resize_with_aspect_clamped s pos =
     (case v3_resize_anchor s of
        None \<Rightarrow> s
      | Some anc \<Rightarrow>
         (let r = v3_rect s;
              fixed = (case anc of
                         Anchor_tl \<Rightarrow> bottomRight r
                       | Anchor_tr \<Rightarrow> bottomLeft r
                       | Anchor_bl \<Rightarrow> topRight r
                       | Anchor_br \<Rightarrow> topLeft r);
              dx = fst pos - fst fixed;
              dy = snd pos - snd fixed;
              sign_x = (if dx > 0 then 1 else - 1);
              sign_y = (if dy > 0 then 1 else - 1);
              new_w = max 50 \<bar>dx\<bar>;
              new_h = py_round (of_int new_w / v3_aspect s);
              (new_w, new_h) =
                (if \<bar>new_h\<bar> > max 50 \<bar>dy\<bar>
                 then (let new_h = max 50 \<bar>dy\<bar> in (py_round (of_int new_h * v3_aspect s), new_h))
                 else (new_w, new_h));
              max_w = v3_width s;
              max_h = v3_height s;
              new_w = max 50 (min new_w max_w);
              new_h = max 50 (min new_h max_h);
              (new_left, new_top) = (case anc of
                  Anchor_tl \<Rightarrow> (fst fixed - sign_x * new_w, snd fixed - sign_y * new_h)
                | Anchor_tr \<Rightarrow>
                    (if sign_x > 0 then fst fixed - new_w else fst fixed,
                     snd fixed - sign_y * new_h)
                | Anchor_bl \<Rightarrow>
                    (fst fixed - sign_x * new_w,
                     if sign_y > 0 then snd fixed - new_h else snd fixed)
                | Anchor_br \<Rightarrow>
                    (if sign_x > 0 then fst fixed - new_w else fst fixed,
                     if sign_y > 0 then snd fixed - new_h else snd fixed));
              new_left = max 0 (min new_left (v3_width s - new_w));
              new_top = max 0 (min new_top (v3_height s - new_h))
          in if c_int new_left \<and> c_int new_top \<and> c_int new_w \<and> c_int new_h
             then s\<lparr>v3_rect := QRect new_left new_top new_w new_h\<rparr>
             else s))"

text \<open>\<^verbatim>\<open>mousePressEvent\<close> (lines 120-132), \<^verbatim>\<open>mouseMoveEvent\<close> (lines 134-154, without the
  cursor's shape) and \<^verbatim>\<open>keyPressEvent\<close> (lines 227-244); closing the window and toggling
  full screen change none of the fields.\<close>

definition v3_mousePressEvent :: "v3_overlay \<Rightarrow> bool \<Rightarrow> int \<times> int \<Rightarrow> v3_overlay" where
  "v3_mousePressEvent s left pos =
     (if \<not> left \<or> v3_mirror_mode s then s
      else (case qt_hit_test (v3_rect s) pos of
        Some Hit_move \<Rightarrow>
          s\<lparr>v3_dragging := True,
            v3_drag_offset := (fst pos - qr_x (v3_rect s), snd pos - qr_y (v3_rect s))\<rparr>
      | Some (Hit_anchor a) \<Rightarrow>
          s\<lparr>v3_resizing := True, v3_resize_anchor := Some a, v3_drag_offset := pos\<rparr>
      | None \<Rightarrow> s))"

definition v3_mouseMoveEvent :: "v3_overlay \<Rightarrow> int \<times> int \<Rightarrow> v3_overlay" where
  "v3_mouseMoveEvent s pos =
     (if v3_mirror_mode s then s
      else if v3_dragging s
        then move_rect_clamped s
               (fst pos - fst (v3_drag_offset s), snd pos - snd (v3_drag_offset s))
      else if v3_resizing s \<and> v3_resize_anchor s \<noteq> None then resize_with_aspect_clamped s pos
      else s)"

definition v3_keyPressEvent :: "v3_overlay \<Rightarrow> qt_key \<Rightarrow> v3_overlay" where
  "v3_keyPressEvent s key =
     (if key = Key_Escape \<or> key = Key_Q then s
      else if key = Key_F11 then s
      else if key = Key_R \<and> \<not> v3_mirror_mode s then reset_rect_centered s
      else if key = Key_S \<and> \<not> v3_mirror_mode s then s\<lparr>v3_mirror_mode := True\<rparr>
      else s)"


section \<open>The specification's vocabulary\<close>

text \<open>
  A rectangle \<open>(x1, y1, x2, y2)\<close> lies inside a window of \<open>W\<close> by \<open>H\<close> pixels when
  \<open>0 \<le> x\<close>, \<open>x + width \<le> W\<close>, \<open>0 \<le> y\<close> and \<open>y + height \<le> H\<close>; for a \<^verbatim>\<open>QRect\<close> the same with
  its \<open>x\<close>, \<open>y\<close>, \<open>w\<close>, \<open>h\<close>.
\<close>

definition inside_bounds :: "int \<Rightarrow> int \<Rightarrow> box \<Rightarrow> bool" where
  "inside_bounds W H r = (case r of (x1, y1, x2, y2) \<Rightarrow> 0 \<le> x1 \<and> x2 \<le> W \<and> 0 \<le> y1 \<and> y2 \<le> H)"

definition qrect_inside :: "int \<Rightarrow> int \<Rightarrow> qrect \<Rightarrow> bool" where
  "qrect_inside W H r = (0 \<le> qr_x r \<and> qr_x r + qr_w r \<le> W \<and> 0 \<le> qr_y r \<and> qr_y r + qr_h r \<le> H)"

definition box_width :: "box \<Rightarrow> int" where
  "box_width r = (case r of (x1, y1, x2, y2) \<Rightarrow> x2 - x1)"

definition box_height :: "box \<Rightarrow> int" where
  "box_height r = (case r of (x1, y1, x2, y2) \<Rightarrow> y2 - y1)"

text \<open>
  "Width/height equal to the aspect ratio within rounding tolerance": one side is within
  one pixel of the value the other side and the ratio give. This allows both \<^verbatim>\<open>round\<close> and
  \<^verbatim>\<open>int\<close>.
\<close>

definition aspect_within_rounding :: "rat \<Rightarrow> int \<Rightarrow> int \<Rightarrow> bool" where
  "aspect_within_rounding a w h =
     (\<bar>of_int h - of_int w / a\<bar> < 1 \<or> \<bar>of_int w - of_int h * a\<bar> < 1)"



text \<open>
  A grab fails when it returns no image or raises. A failure streak of the capture thread of
  projector\_mirror\_tk\_fast.py in which every grab returns \<^verbatim>\<open>None\<close> is given by the times
  \<^verbatim>\<open>perf_counter\<close> measures in its cycles.
\<close>

definition failed :: "'f grab \<Rightarrow> bool" where
  "failed g = (case g of Grabbed f \<Rightarrow> False | NoFrame \<Rightarrow> True | Raises \<Rightarrow> True)"

definition no_frame_cycles :: "rat list \<Rightarrow> ('f grab \<times> rat) list" where
  "no_frame_cycles spents = map (\<lambda>spent. (NoFrame, spent)) spents"


section \<open>Hit-testing\<close>

lemma find_in_handle_None:
  assumes "\<not> (\<bar>x - x1\<bar> \<le> HANDLE \<and> \<bar>y - y1\<bar> \<le> HANDLE)"
    and "\<not> (\<bar>x - x2\<bar> \<le> HANDLE \<and> \<bar>y - y1\<bar> \<le> HANDLE)"
    and "\<not> (\<bar>x - x1\<bar> \<le> HANDLE \<and> \<bar>y - y2\<bar> \<le> HANDLE)"
    and "\<not> (\<bar>x - x2\<bar> \<le> HANDLE \<and> \<bar>y - y2\<bar> \<le> HANDLE)"
  shows "find (in_handle x y) (corners (x1, y1, x2, y2)) = None"
  using assms by (simp add: corners_def in_handle_def)

text \<open>
  Claim C10. For a pointer position \<open>(x, y)\<close> outside the four handle zones (the squares of
  half-side \<open>HANDLE\<close> around the corners), \<^verbatim>\<open>hit_test\<close> of projector\_mirror\_tk.py (and of
  projector\_mirror\_tk\_v2.py, the same text) answers \<^verbatim>\<open>'move'\<close> exactly when the position is
  strictly inside the rectangle. Anywhere else, so also on the border, it answers
  \<^verbatim>\<open>None\<close>; a pointer-down there in the setup state leaves \<^verbatim>\<open>dragging_mode\<close> empty, and a
  following drag does not change the rectangle.
\<close>

theorem hit_test_outside_handles:
  assumes "\<not> (\<bar>x - x1\<bar> \<le> HANDLE \<and> \<bar>y - y1\<bar> \<le> HANDLE)"
    and "\<not> (\<bar>x - x2\<bar> \<le> HANDLE \<and> \<bar>y - y1\<bar> \<le> HANDLE)"
    and "\<not> (\<bar>x - x1\<bar> \<le> HANDLE \<and> \<bar>y - y2\<bar> \<le> HANDLE)"
    and "\<not> (\<bar>x - x2\<bar> \<le> HANDLE \<and> \<bar>y - y2\<bar> \<le> HANDLE)"
  shows "(hit_test (x1, y1, x2, y2) x y = Some Move \<longleftrightarrow> x1 < x \<and> x < x2 \<and> y1 < y \<and> y < y2)
       \<and> (\<not> (x1 < x \<and> x < x2 \<and> y1 < y \<and> y < y2) \<longrightarrow>
            hit_test (x1, y1, x2, y2) x y = None
          \<and> (\<forall>s e. rect s = (x1, y1, x2, y2) \<and> \<not> mirroring s \<longrightarrow>
                dragging_mode (on_mouse_down s (x, y)) = None
              \<and> rect (on_mouse_drag (on_mouse_down s (x, y)) e) = rect s))"
proof -
  have none: "find (in_handle x y) (corners (x1, y1, x2, y2)) = None"
    using assms by (rule find_in_handle_None)
  have ht: "hit_test (x1, y1, x2, y2) x y =
      (if x1 < x \<and> x < x2 \<and> y1 < y \<and> y < y2 then Some Move else None)"
    by (simp add: hit_test_def none)
  show ?thesis
    by (simp add: ht on_mouse_down_def on_mouse_drag_def)
qed

text \<open>On the initial rectangle of a \<open>1920x1080\<close> window: \<open>(900, 360)\<close> lies on the top edge,
  \<open>(900, 361)\<close> just inside.\<close>

theorem hit_test_outside_handles_witness:
  "hit_test (640, 360, 1280, 720) 900 360 = None
   \<and> hit_test (640, 360, 1280, 720) 900 361 = Some Move
   \<and> dragging_mode (on_mouse_down (init_app (16 / 9) 1920 1080 :: nat tk_app) (900, 360)) = None"
proof -
  note border = hit_test_outside_handles [of 900 640 360 360 1280 720, unfolded HANDLE_def]
  note inner = hit_test_outside_handles [of 900 640 361 360 1280 720, unfolded HANDLE_def]
  have r: "rect (init_app (16 / 9) 1920 1080 :: nat tk_app) = (640, 360, 1280, 720)"
    by code_simp
  have m: "\<not> mirroring (init_app (16 / 9) 1920 1080 :: nat tk_app)"
    by (simp add: init_app_def)
  have a: "hit_test (640, 360, 1280, 720) 900 360 = None"
    using border by force
  have b: "hit_test (640, 360, 1280, 720) 900 361 = Some Move"
    using inner by force
  have c: "dragging_mode (on_mouse_down (init_app (16 / 9) 1920 1080 :: nat tk_app) (900, 360)) = None"
    using border r m by force
  from a b c show ?thesis by blast
qed

section \<open>The editor is frozen while mirroring\<close>

lemma schedule_frame_draw_editor:
  "rect (schedule_frame_draw s) = rect s \<and> mirroring (schedule_frame_draw s) = mirroring s
   \<and> aspect (schedule_frame_draw s) = aspect s \<and> proj_w (schedule_frame_draw s) = proj_w s
   \<and> proj_h (schedule_frame_draw s) = proj_h s"
  by (simp add: schedule_frame_draw_def split: option.split prod.split)

lemma on_key_mirroring:
  assumes "mirroring s"
  shows "rect (on_key s k) = rect s \<and> mirroring (on_key s k)"
  using assms by (simp add: on_key_def Let_def)

lemma step_mirroring:
  assumes "mirroring s"
  shows "rect (step s ev) = rect s \<and> mirroring (step s ev)"
proof (cases ev)
  case (Key k)
  then show ?thesis using assms on_key_mirroring [OF assms, of k] by simp
next
  case Tick
  then show ?thesis using assms schedule_frame_draw_editor [of s] by simp
qed (use assms in \<open>simp_all add: on_mouse_down_def on_mouse_drag_def on_mouse_up_def capture_iteration_def\<close>)

lemma run_mirroring:
  assumes "mirroring s"
  shows "rect (run s evs) = rect s \<and> mirroring (run s evs)"
  using assms
proof (induction evs arbitrary: s)
  case Nil
  then show ?case by (simp add: run_def)
next
  case (Cons ev evs)
  from step_mirroring [OF Cons.prems, of ev]
  have st: "rect (step s ev) = rect s" and m: "mirroring (step s ev)" by simp_all
  from Cons.IH [OF m] st show ?case by (simp add: run_def)
qed

lemma lower_r: "lower ''r'' = ''r''"
  by code_simp

lemma start_state:
  "mirroring (on_key (init_app (16 / 9) 1920 1080 :: nat tk_app) ''s'')
   \<and> rect (on_key (init_app (16 / 9) 1920 1080 :: nat tk_app) ''s'') = (640, 360, 1280, 720)"
  by code_simp

text \<open>
  Claim C7. In projector\_mirror\_tk.py, once \<^verbatim>\<open>self.mirroring\<close> is set, a pointer-down, a
  pointer-drag and every key (the reset key \<^verbatim>\<open>'r'\<close> among them) leave \<^verbatim>\<open>self.rect\<close> as it
  is; so does every other event, and every sequence of events, during which the flag
  stays set. Hence the rectangle changes only in the setup state.
\<close>

theorem mirroring_freezes_rect:
  assumes "mirroring s"
  shows "rect (on_mouse_down s e) = rect s
       \<and> rect (on_mouse_drag s e) = rect s
       \<and> rect (on_key s k) = rect s
       \<and> rect (step s ev) = rect s \<and> mirroring (step s ev)
       \<and> rect (run s evs) = rect s \<and> mirroring (run s evs)"
  using assms step_mirroring [OF assms, of ev] run_mirroring [OF assms, of evs]
    on_key_mirroring [OF assms, of k]
  by (simp add: on_mouse_down_def on_mouse_drag_def)

text \<open>After \<^verbatim>\<open>'s'\<close> on a \<open>1920x1080\<close> window, a move gesture, the reset key and a resize
  gesture leave the committed rectangle where it was.\<close>

theorem mirroring_freezes_rect_witness:
  "rect (run (on_key (init_app (16 / 9) 1920 1080 :: nat tk_app) ''s'')
      [MouseDown (960, 540), MouseDrag (1600, 540), MouseUp (1600, 540), Key ''r'',
       MouseDown (1280, 720), MouseDrag (0, 0)]) = (640, 360, 1280, 720)"
proof -
  have m: "mirroring (on_key (init_app (16 / 9) 1920 1080 :: nat tk_app) ''s'')"
    using start_state by simp
  from mirroring_freezes_rect [OF m] start_state show ?thesis by simp
qed


section \<open>Resetting the rectangle\<close>

lemma on_key_r:
  "on_key s ''r'' =
     (if mirroring s then s else s\<lparr>rect := centered_rect (aspect s) (proj_w s) (proj_h s)\<rparr>)"
  by (simp add: on_key_def lower_r)

text \<open>
  Claim C9. Resetting twice gives the state that resetting once gives: for key \<^verbatim>\<open>'r'\<close> of
  projector\_mirror\_tk.py and for \<^verbatim>\<open>_reset_rect_centered\<close> and key R of
  projector\_mirror\_simple\_v3.py. In the setup state the rectangle after a reset is the
  centred rectangle of the current bounds and aspect ratio, whatever it was before.
\<close>

theorem reset_idempotent:
  "on_key (on_key s ''r'') ''r'' = on_key s ''r''
   \<and> (\<not> mirroring s \<longrightarrow> rect (on_key s ''r'') = centered_rect (aspect s) (proj_w s) (proj_h s))
   \<and> reset_rect_centered (reset_rect_centered t) = reset_rect_centered t
   \<and> v3_keyPressEvent (v3_keyPressEvent t Key_R) Key_R = v3_keyPressEvent t Key_R
   \<and> (\<not> v3_mirror_mode t \<longrightarrow>
        v3_rect (v3_keyPressEvent t Key_R) = v3_centered_rect (v3_aspect t) (v3_width t) (v3_height t))"
  by (simp add: on_key_r reset_rect_centered_def v3_keyPressEvent_def)

theorem reset_idempotent_witness:
  "rect (on_key (on_key (init_app (16 / 9) 1920 1080 :: nat tk_app) ''r'') ''r'') = (640, 360, 1280, 720)
   \<and> v3_rect (v3_keyPressEvent (v3_keyPressEvent (v3_init (16 / 9) 1920 1080) Key_R) Key_R)
       = QRect 640 360 640 360"
proof -
  have a: "rect (on_key (init_app (16 / 9) 1920 1080 :: nat tk_app) ''r'') = (640, 360, 1280, 720)"
    by code_simp
  have b: "v3_rect (v3_keyPressEvent (v3_init (16 / 9) 1920 1080) Key_R) = QRect 640 360 640 360"
    by code_simp
  from a b reset_idempotent [of "init_app (16 / 9) 1920 1080 :: nat tk_app" "v3_init (16 / 9) 1920 1080"]
  show ?thesis by simp
qed

section \<open>The rate keys\<close>

lemma lower_plus: "lower ''plus'' = ''plus''" by code_simp
lemma lower_equal: "lower ''equal'' = ''equal''" by code_simp
lemma lower_minus: "lower ''minus'' = ''minus''" by code_simp
lemma lower_underscore: "lower ''underscore'' = ''underscore''" by code_simp

lemma keyPressEvent_fps:
  "fps (keyPressEvent s key) =
     (if key = Key_Plus \<or> key = Key_Equal then min 120 (fps s + 5)
      else if key = Key_Minus then max 10 (fps s - 5) else fps s)"
  by (simp add: keyPressEvent_def Let_def)

lemma fast_on_key_fps:
  "target_fps (fast_on_key t k) =
     (if lower k = ''plus'' \<or> lower k = ''equal'' then min 120 (target_fps t + 10)
      else if lower k = ''minus'' \<or> lower k = ''underscore'' then max 30 (target_fps t - 10)
      else target_fps t)"
  by (auto simp add: fast_on_key_def Let_def fast_start_mirroring_def)

lemma minus_funpow:
  "10 \<le> fps s \<Longrightarrow> fps (((\<lambda>s. keyPressEvent s Key_Minus) ^^ n) s) = max 10 (fps s - 5 * int n)"
  by (induction n) (simp_all add: keyPressEvent_fps)

lemma plus_funpow:
  "fps s \<le> 120 \<Longrightarrow> fps (((\<lambda>s. keyPressEvent s Key_Plus) ^^ n) s) = min 120 (fps s + 5 * int n)"
  by (induction n) (simp_all add: keyPressEvent_fps)

lemma fast_minus_funpow:
  "30 \<le> target_fps t \<Longrightarrow> target_fps (((\<lambda>t. fast_on_key t ''minus'') ^^ n) t) = max 30 (target_fps t - 10 * int n)"
  by (induction n) (simp_all add: fast_on_key_fps lower_minus)

lemma fast_plus_funpow:
  "target_fps t \<le> 120 \<Longrightarrow> target_fps (((\<lambda>t. fast_on_key t ''plus'') ^^ n) t) = min 120 (target_fps t + 10 * int n)"
  by (induction n) (simp_all add: fast_on_key_fps lower_plus)

text \<open>
  Claim C8, as amended. In projector\_mirror.py the keys Plus and Equal set \<^verbatim>\<open>self.fps\<close> to
  \<open>min(120, fps + 5)\<close> and the key Minus sets it to \<open>max(10, fps - 5)\<close>; a rate within
  \<open>10..120\<close> stays there under every key, 22 decreases reach 10 and 22 increases reach 120.
  In projector\_mirror\_tk\_fast.py the step is 10 and the lower clamp is 30: \<^verbatim>\<open>plus\<close> and
  \<^verbatim>\<open>equal\<close> set \<^verbatim>\<open>self.target_fps\<close> to \<open>min(120, target_fps + 10)\<close>, \<^verbatim>\<open>minus\<close> and
  \<^verbatim>\<open>underscore\<close> to \<open>max(30, target_fps - 10)\<close>; a rate within \<open>30..120\<close> stays there under
  every key, 9 decreases reach 30 and 9 increases reach 120.
\<close>

theorem rate_keys_clamp:
  "fps (keyPressEvent s Key_Plus) = min 120 (fps s + 5)
   \<and> fps (keyPressEvent s Key_Equal) = min 120 (fps s + 5)
   \<and> fps (keyPressEvent s Key_Minus) = max 10 (fps s - 5)
   \<and> (10 \<le> fps s \<and> fps s \<le> 120 \<longrightarrow>
        10 \<le> fps (keyPressEvent s key) \<and> fps (keyPressEvent s key) \<le> 120
      \<and> fps (((\<lambda>s. keyPressEvent s Key_Minus) ^^ 22) s) = 10
      \<and> fps (((\<lambda>s. keyPressEvent s Key_Plus) ^^ 22) s) = 120)
   \<and> target_fps (fast_on_key t ''plus'') = min 120 (target_fps t + 10)
   \<and> target_fps (fast_on_key t ''equal'') = min 120 (target_fps t + 10)
   \<and> target_fps (fast_on_key t ''minus'') = max 30 (target_fps t - 10)
   \<and> target_fps (fast_on_key t ''underscore'') = max 30 (target_fps t - 10)
   \<and> (30 \<le> target_fps t \<and> target_fps t \<le> 120 \<longrightarrow>
        30 \<le> target_fps (fast_on_key t k) \<and> target_fps (fast_on_key t k) \<le> 120
      \<and> target_fps (((\<lambda>t. fast_on_key t ''minus'') ^^ 9) t) = 30
      \<and> target_fps (((\<lambda>t. fast_on_key t ''plus'') ^^ 9) t) = 120)"
proof -
  have pm: "10 \<le> fps s \<and> fps s \<le> 120 \<longrightarrow>
        10 \<le> fps (keyPressEvent s key) \<and> fps (keyPressEvent s key) \<le> 120
      \<and> fps (((\<lambda>s. keyPressEvent s Key_Minus) ^^ 22) s) = 10
      \<and> fps (((\<lambda>s. keyPressEvent s Key_Plus) ^^ 22) s) = 120"
    by (simp add: keyPressEvent_fps minus_funpow plus_funpow)
  have fast: "30 \<le> target_fps t \<and> target_fps t \<le> 120 \<longrightarrow>
        30 \<le> target_fps (fast_on_key t k) \<and> target_fps (fast_on_key t k) \<le> 120
      \<and> target_fps (((\<lambda>t. fast_on_key t ''minus'') ^^ 9) t) = 30
      \<and> target_fps (((\<lambda>t. fast_on_key t ''plus'') ^^ 9) t) = 120"
    by (simp add: fast_on_key_fps fast_minus_funpow fast_plus_funpow)
  from pm fast show ?thesis
    by (simp add: keyPressEvent_fps fast_on_key_fps lower_plus lower_equal lower_minus
        lower_underscore)
qed

text \<open>
  From the initial rates, 30 in projector\_mirror.py and 90 in projector\_mirror\_tk\_fast.py.
\<close>

theorem rate_keys_clamp_witness:
  "fps (((\<lambda>s. keyPressEvent s Key_Minus) ^^ 22) (init_mirror 30 :: nat mirror_win)) = 10
   \<and> fps (((\<lambda>s. keyPressEvent s Key_Plus) ^^ 22) (init_mirror 30 :: nat mirror_win)) = 120
   \<and> target_fps (((\<lambda>t. fast_on_key t ''minus'') ^^ 9) (fast_init (16 / 9) 1920 1080 :: nat fast_app)) = 30
   \<and> target_fps (((\<lambda>t. fast_on_key t ''plus'') ^^ 9) (fast_init (16 / 9) 1920 1080 :: nat fast_app)) = 120"
proof -
  have a: "fps (init_mirror 30 :: nat mirror_win) = 30"
    by (simp add: init_mirror_def Let_def)
  have b: "target_fps (fast_init (16 / 9) 1920 1080 :: nat fast_app) = 90"
    by (simp add: fast_init_def)
  from a b rate_keys_clamp [of "init_mirror 30 :: nat mirror_win" Key_Other
      "fast_init (16 / 9) 1920 1080 :: nat fast_app" "''x''"]
  show ?thesis by simp
qed

text \<open>
  Claim C8 as stated fails in projector\_mirror\_tk\_fast.py: six presses of \<^verbatim>\<open>minus\<close> bring
  the initial rate 90 down to 30, and one more leaves it at 30, which is not
  \<open>max(10, 30 - 10)\<close>.
\<close>

theorem fast_rate_floor_counterexample:
  "target_fps (fast_on_key
      (foldl fast_on_key (fast_init (16 / 9) 1920 1080 :: nat fast_app) (replicate 6 ''minus''))
      ''minus'')
   \<noteq> max 10 (target_fps
      (foldl fast_on_key (fast_init (16 / 9) 1920 1080 :: nat fast_app) (replicate 6 ''minus''))
      - 10)"
  by code_simp


section \<open>The size of a corner drag\<close>









section \<open>The centred rectangle\<close>
















section \<open>Capture failures\<close>

lemma grab_and_update_failed:
  assumes "failed g" and "\<not> paused s"
  shows "grab_and_update s g = s\<lparr>pm_slept := pm_slept s @ [5 / 100]\<rparr>"
  using assms by (cases g) (simp_all add: grab_and_update_def failed_def)

lemma grab_streak:
  assumes "list_all failed gs" and "\<not> paused s"
  shows "viewer_frame (foldl grab_and_update s gs) = viewer_frame s
       \<and> pm_slept (foldl grab_and_update s gs) = pm_slept s @ replicate (length gs) (5 / 100)
       \<and> \<not> paused (foldl grab_and_update s gs)"
  using assms
proof (induction gs arbitrary: s)
  case Nil
  then show ?case by simp
next
  case (Cons g gs)
  from Cons.prems have g: "failed g" and gs: "list_all failed gs" by simp_all
  let ?s = "s\<lparr>pm_slept := pm_slept s @ [5 / 100]\<rparr>"
  have st: "grab_and_update s g = ?s" using g Cons.prems(2) by (rule grab_and_update_failed)
  have "\<not> paused ?s" using Cons.prems(2) by simp
  from Cons.IH [OF gs this] show ?case by (simp add: st)
qed

lemma cycle_no_frame:
  assumes "capture_alive t" and "\<not> fast_stop_flag t"
  shows "capture_cycle_dx i t (NoFrame, sp) = t\<lparr>slept := slept t @ [5 / 1000]\<rparr>"
  using assms by (simp add: capture_cycle_dx_def)

lemma no_frame_streak:
  assumes "capture_alive t" and "\<not> fast_stop_flag t"
  shows "latest_bgr (foldl (capture_cycle_dx i) t (no_frame_cycles sps)) = latest_bgr t
       \<and> slept (foldl (capture_cycle_dx i) t (no_frame_cycles sps))
           = slept t @ replicate (length sps) (5 / 1000)
       \<and> capture_alive (foldl (capture_cycle_dx i) t (no_frame_cycles sps))
       \<and> \<not> fast_stop_flag (foldl (capture_cycle_dx i) t (no_frame_cycles sps))"
  using assms
proof (induction sps arbitrary: t)
  case Nil
  then show ?case by (simp add: no_frame_cycles_def)
next
  case (Cons sp sps)
  let ?t = "t\<lparr>slept := slept t @ [5 / 1000]\<rparr>"
  have st: "capture_cycle_dx i t (NoFrame, sp) = ?t"
    using Cons.prems by (rule cycle_no_frame)
  have "capture_alive ?t" "\<not> fast_stop_flag ?t" using Cons.prems by simp_all
  from Cons.IH [OF this] show ?case by (simp add: st no_frame_cycles_def)
qed

lemma cycle_grabbed:
  assumes "capture_alive t" and "\<not> fast_stop_flag t"
  shows "latest_bgr (capture_cycle_dx i t (Grabbed f, sp)) = Some f"
  using assms by (simp add: capture_cycle_dx_def Let_def)

text \<open>
  Claim C6, as amended. In projector\_mirror.py, for every streak of timer cycles (not
  paused) in which the grab raises or returns something the conversion cannot use, no frame
  is published: \<^verbatim>\<open>self.viewer._frame\<close> stays as it was, each cycle sleeps the fixed 0.05 s
  and returns normally, and the next successful cycle publishes its frame. In
  projector\_mirror\_tk\_fast.py, for every streak of cycles of the running capture thread in
  which \<^verbatim>\<open>cam.grab\<close> returns \<^verbatim>\<open>None\<close>, \<^verbatim>\<open>self._latest_bgr\<close> stays as it was, each cycle
  sleeps the fixed 0.005 s, the thread keeps running, and the next successful cycle
  publishes its frame. Both hold for any length of the streak. A grab that raises in
  projector\_mirror\_tk\_fast.py is not part of the statement: it ends the capture thread.
\<close>

theorem capture_failure_keeps_frame:
  assumes "list_all failed gs"
  shows "(\<not> paused s \<longrightarrow>
            viewer_frame (foldl grab_and_update s gs) = viewer_frame s
          \<and> pm_slept (foldl grab_and_update s gs) = pm_slept s @ replicate (length gs) (5 / 100)
          \<and> viewer_frame (grab_and_update (foldl grab_and_update s gs) (Grabbed f)) = Some f)
       \<and> (capture_alive t \<and> \<not> fast_stop_flag t \<longrightarrow>
            latest_bgr (capture_loop_dx t (no_frame_cycles sps)) = latest_bgr t
          \<and> slept (capture_loop_dx t (no_frame_cycles sps))
              = slept t @ replicate (length sps) (5 / 1000)
          \<and> capture_alive (capture_loop_dx t (no_frame_cycles sps))
          \<and> latest_bgr (capture_loop_dx t (no_frame_cycles sps @ [(Grabbed f', sp)])) = Some f')"
proof -
  have pm: "\<not> paused s \<longrightarrow>
            viewer_frame (foldl grab_and_update s gs) = viewer_frame s
          \<and> pm_slept (foldl grab_and_update s gs) = pm_slept s @ replicate (length gs) (5 / 100)
          \<and> viewer_frame (grab_and_update (foldl grab_and_update s gs) (Grabbed f)) = Some f"
  proof
    assume np: "\<not> paused s"
    from grab_streak [OF assms np]
    show "viewer_frame (foldl grab_and_update s gs) = viewer_frame s
          \<and> pm_slept (foldl grab_and_update s gs) = pm_slept s @ replicate (length gs) (5 / 100)
          \<and> viewer_frame (grab_and_update (foldl grab_and_update s gs) (Grabbed f)) = Some f"
      by (simp add: grab_and_update_def)
  qed
  have fast: "capture_alive t \<and> \<not> fast_stop_flag t \<longrightarrow>
            latest_bgr (capture_loop_dx t (no_frame_cycles sps)) = latest_bgr t
          \<and> slept (capture_loop_dx t (no_frame_cycles sps))
              = slept t @ replicate (length sps) (5 / 1000)
          \<and> capture_alive (capture_loop_dx t (no_frame_cycles sps))
          \<and> latest_bgr (capture_loop_dx t (no_frame_cycles sps @ [(Grabbed f', sp)])) = Some f'"
  proof
    assume a: "capture_alive t \<and> \<not> fast_stop_flag t"
    then have al: "capture_alive t" and ns: "\<not> fast_stop_flag t" by simp_all
    note st = no_frame_streak [OF al ns, of "1 / of_int (target_fps t)" sps]
    from st have al': "capture_alive (foldl (capture_cycle_dx (1 / of_int (target_fps t))) t (no_frame_cycles sps))"
      and ns': "\<not> fast_stop_flag (foldl (capture_cycle_dx (1 / of_int (target_fps t))) t (no_frame_cycles sps))"
      by simp_all
    from st cycle_grabbed [OF al' ns', of "1 / of_int (target_fps t)" f' sp]
    show "latest_bgr (capture_loop_dx t (no_frame_cycles sps)) = latest_bgr t
          \<and> slept (capture_loop_dx t (no_frame_cycles sps))
              = slept t @ replicate (length sps) (5 / 1000)
          \<and> capture_alive (capture_loop_dx t (no_frame_cycles sps))
          \<and> latest_bgr (capture_loop_dx t (no_frame_cycles sps @ [(Grabbed f', sp)])) = Some f'"
      by (simp add: capture_loop_dx_def)
  qed
  from pm fast show ?thesis by (rule conjI)
qed


text \<open>
  The scenario of the specification: one published frame, then five failures in a row.
\<close>

theorem capture_failure_keeps_frame_witness:
  "viewer_frame (foldl grab_and_update (grab_and_update (init_mirror 30 :: nat mirror_win) (Grabbed 1))
      [Raises, Raises, NoFrame, Raises, Raises]) = Some 1
   \<and> latest_bgr (capture_loop_dx
        (capture_loop_dx (fast_start_mirroring (fast_init (16 / 9) 1920 1080 :: nat fast_app))
           [(Grabbed 1, 0)])
        (no_frame_cycles [0, 0, 0, 0, 0])) = Some 1"
proof -
  let ?s = "grab_and_update (init_mirror 30 :: nat mirror_win) (Grabbed 1)"
  let ?t = "capture_loop_dx (fast_start_mirroring (fast_init (16 / 9) 1920 1080 :: nat fast_app))
           [(Grabbed 1, 0)]"
  have fl: "list_all failed [Raises, Raises, NoFrame, Raises, Raises :: nat grab]"
    by (simp add: failed_def)
  have s: "\<not> paused ?s" "viewer_frame ?s = Some 1" by code_simp+
  have t: "capture_alive ?t" "\<not> fast_stop_flag ?t" "latest_bgr ?t = Some 1" by code_simp+
  note th = capture_failure_keeps_frame [OF fl, of ?s _ ?t "[0, 0, 0, 0, 0]"]
  from th s have a: "viewer_frame (foldl grab_and_update ?s
      [Raises, Raises, NoFrame, Raises, Raises]) = Some 1" by simp
  from th t have b: "latest_bgr (capture_loop_dx ?t (no_frame_cycles [0, 0, 0, 0, 0])) = Some 1"
    by simp
  from a b show ?thesis by (rule conjI)
qed

text \<open>
  Claim C6 as stated fails in projector\_mirror\_tk\_fast.py for a grab that raises: the
  exception leaves \<^verbatim>\<open>capture_loop_dx\<close>, the thread ends without a backoff sleep, and a later
  frame is never published.
\<close>

theorem capture_raise_counterexample:
  "\<not> capture_alive (capture_loop_dx
        (fast_start_mirroring (fast_init (16 / 9) 1920 1080 :: nat fast_app)) [(Raises, 0)])
   \<and> slept (capture_loop_dx
        (fast_start_mirroring (fast_init (16 / 9) 1920 1080 :: nat fast_app)) [(Raises, 0)]) = []
   \<and> latest_bgr (capture_loop_dx
        (fast_start_mirroring (fast_init (16 / 9) 1920 1080 :: nat fast_app))
        [(Raises, 0), (Grabbed 7, 0)]) = None"
  by code_simp

section \<open>Moving, resizing and drawing: where the scripts differ\<close>

text \<open>
  The move branch of projector\_mirror\_tk.py and \<^verbatim>\<open>_move_rect_clamped\<close> of
  projector\_mirror\_simple\_v3.py do clamp: a rectangle that fits the window stays inside it,
  with its size unchanged, wherever the pointer goes.
\<close>

lemma move_box_clamped:
  assumes "x2 - x1 \<le> W" and "y2 - y1 \<le> H"
  shows "inside_bounds W H (move_box W H (x1, y1, x2, y2) prev x y)
       \<and> box_width (move_box W H (x1, y1, x2, y2) prev x y) = x2 - x1
       \<and> box_height (move_box W H (x1, y1, x2, y2) prev x y) = y2 - y1"
  using assms by (auto simp add: move_box_def inside_bounds_def box_width_def box_height_def Let_def)

lemma move_rect_clamped_inside:
  assumes "qr_w (v3_rect s) \<le> v3_width s" and "qr_h (v3_rect s) \<le> v3_height s"
  shows "qrect_inside (v3_width s) (v3_height s) (v3_rect (move_rect_clamped s p))
       \<and> qr_w (v3_rect (move_rect_clamped s p)) = qr_w (v3_rect s)
       \<and> qr_h (v3_rect (move_rect_clamped s p)) = qr_h (v3_rect s)"
  using assms by (auto simp add: move_rect_clamped_def qrect_inside_def moveTo_def Let_def)



text \<open>
  Claim C1 fails on the aspect invariant. In projector\_mirror\_tk.py on a \<open>1920x1080\<close>
  window with aspect \<open>16/9\<close>: move the initial rectangle to the right edge, then drag its
  bottom-right handle to \<open>(0, 1080)\<close>. The size computed is \<open>1280x720\<close>, and the clamp of
  \<open>x2\<close> to the window cuts the width alone: the rectangle becomes \<open>640\<close> wide and \<open>720\<close>
  high. In projector\_mirror\_simple\_v3.py: drag the bottom-right handle of the initial
  rectangle to \<open>(700, 400)\<close>. The size computed is \<open>60x34\<close>, and the clamp of the height to
  at least 50 gives \<open>60x50\<close>. Neither is within a pixel of the ratio.
\<close>

theorem resize_breaks_aspect_lock:
  "rect (run (init_app (16 / 9) 1920 1080 :: nat tk_app)
      [MouseDown (960, 540), MouseDrag (1600, 540), MouseUp (1600, 540),
       MouseDown (1920, 720), MouseDrag (0, 1080)]) = (1280, 360, 1920, 1080)
   \<and> \<not> aspect_within_rounding (16 / 9) (1920 - 1280) (1080 - 360)
   \<and> v3_rect (v3_mouseMoveEvent
        (v3_mousePressEvent (v3_init (16 / 9) 1920 1080) True (1279, 719)) (700, 400))
      = QRect 580 310 60 50
   \<and> \<not> aspect_within_rounding (16 / 9) 60 50"
  by code_simp

text \<open>
  The rectangle of the first scenario.
\<close>

theorem resize_breaks_aspect_lock_witness:
  "rect (run (init_app (16 / 9) 1920 1080 :: nat tk_app)
      [MouseDown (960, 540), MouseDrag (1600, 540), MouseUp (1600, 540),
       MouseDown (1920, 720), MouseDrag (0, 1080)]) = (1280, 360, 1920, 1080)"
  by (rule resize_breaks_aspect_lock [THEN conjunct1])




text \<open>
  In projector\_mirror\_tk\_v2.py the slot behaves as claim C5 says: after any writes ending
  with \<open>f\<close>, the next \<^verbatim>\<open>ui_update_loop\<close> draws \<open>f\<close> alone and empties the slot, and a second
  one changes nothing.
\<close>

lemma v2_writes:
  assumes "\<not> v2_stop_flag s"
  shows "foldl (\<lambda>s f. v2_capture_iteration f s) s (fs @ [f]) = s\<lparr>latest_img := Some f\<rparr>"
  using assms
proof (induction fs arbitrary: s)
  case Nil
  then show ?case by (simp add: v2_capture_iteration_def)
next
  case (Cons g fs)
  have "\<not> v2_stop_flag (s\<lparr>latest_img := Some g\<rparr>)" using Cons.prems by simp
  from Cons.IH [OF this] Cons.prems show ?case by (simp add: v2_capture_iteration_def)
qed

lemma v2_latest_wins:
  assumes "\<not> v2_stop_flag s" and "v2_mirroring s" and "v2_image_id s"
    and "v2_rect s = (x1, y1, x2, y2)"
  shows "v2_canvas_image (ui_update_loop (foldl (\<lambda>s f. v2_capture_iteration f s) s (fs @ [f])))
           = v2_canvas_image s @ [(f, x1, y1)]
       \<and> latest_img (ui_update_loop (foldl (\<lambda>s f. v2_capture_iteration f s) s (fs @ [f]))) = None
       \<and> ui_update_loop (ui_update_loop (foldl (\<lambda>s f. v2_capture_iteration f s) s (fs @ [f])))
           = ui_update_loop (foldl (\<lambda>s f. v2_capture_iteration f s) s (fs @ [f]))"
proof -
  have w: "foldl (\<lambda>s f. v2_capture_iteration f s) s (fs @ [f]) = s\<lparr>latest_img := Some f\<rparr>"
    by (rule v2_writes [OF assms(1)])
  show ?thesis unfolding w using assms by (simp add: ui_update_loop_def Let_def)
qed

text \<open>
  What the corner drag of projector\_mirror\_tk.py does keep: a rectangle inside the window
  stays inside it, and its width and height never become negative, for every corner, cursor
  and aspect ratio.
\<close>

lemma resize_box_inside:
  assumes "inside_bounds W H (x1, y1, x2, y2)" and "x1 \<le> x2" and "y1 \<le> y2"
  shows "inside_bounds W H (resize_box a W H m (x1, y1, x2, y2) x y)
       \<and> 0 \<le> box_width (resize_box a W H m (x1, y1, x2, y2) x y)
       \<and> 0 \<le> box_height (resize_box a W H m (x1, y1, x2, y2) x y)"
proof -
  obtain w h where wh: "drag_size a \<bar>x - (case m of TL \<Rightarrow> x2 | TR \<Rightarrow> x1 | BL \<Rightarrow> x2 | _ \<Rightarrow> x1)\<bar>
      \<bar>y - (case m of TL \<Rightarrow> y2 | TR \<Rightarrow> y2 | BL \<Rightarrow> y1 | _ \<Rightarrow> y1)\<bar> = (w, h)"
    by (cases "drag_size a \<bar>x - (case m of TL \<Rightarrow> x2 | TR \<Rightarrow> x1 | BL \<Rightarrow> x2 | _ \<Rightarrow> x1)\<bar>
      \<bar>y - (case m of TL \<Rightarrow> y2 | TR \<Rightarrow> y2 | BL \<Rightarrow> y1 | _ \<Rightarrow> y1)\<bar>") simp
  from assms have b: "0 \<le> x1" "x2 \<le> W" "0 \<le> y1" "y2 \<le> H"
    by (simp_all add: inside_bounds_def)
  show ?thesis
  proof (cases m)
    case Move
    with wh b assms(2,3) show ?thesis
      by (simp add: resize_box_def inside_bounds_def box_width_def box_height_def)
  next
    case TL
    with wh b assms(2,3) show ?thesis
      by (simp add: resize_box_def inside_bounds_def box_width_def box_height_def)
  next
    case TR
    with wh b assms(2,3) show ?thesis
      by (simp add: resize_box_def inside_bounds_def box_width_def box_height_def)
  next
    case BL
    with wh b assms(2,3) show ?thesis
      by (simp add: resize_box_def inside_bounds_def box_width_def box_height_def)
  next
    case BR
    with wh b assms(2,3) show ?thesis
      by (simp add: resize_box_def inside_bounds_def box_width_def box_height_def)
  qed
qed

end
